theory Spec2Isabelle
  imports Complex_Main "HOL-Library.Word" "HOL-Library.Log_Nat"
begin

section \<open>The two sensor firmwares\<close>

text \<open>
  The repository holds two firmwares for the tree-mounted sensor node:
  \<^item> the production sensor node (30-second monitoring with a voting classifier):
    \<^verbatim>\<open>setup\<close>, \<^verbatim>\<open>run_ai_analysis\<close>, \<^verbatim>\<open>send_packet\<close>, \<^verbatim>\<open>go_to_sleep\<close>;
  \<^item> firmware V2.0 (\<^verbatim>\<open>firmware/EcoSentinel_Firmware.ino\<close>; one vibration window, one audio
    window): \<^verbatim>\<open>setup\<close>, \<^verbatim>\<open>analyze_environment\<close>, \<^verbatim>\<open>send_lora_alert\<close>, \<^verbatim>\<open>goToDeepSleep\<close>.

  Both are embedded here. The two \<^verbatim>\<open>setup\<close> routines are called \<open>setup_sensor\<close> and
  \<open>setup_v2\<close>. What the hardware delivers during one boot cycle is an explicit input
  (\<open>world\<close>); what the firmware does is an explicit output (the \<open>trace\<close> of the
  machine state). Values of C type \<^verbatim>\<open>double\<close> are modelled by the real numbers they
  denote, except in the final vote comparison, where the rounding of the product is
  written out. Serial logging and the busy-wait that times the sampling are not modelled.
\<close>

subsection \<open>Configuration constants\<close>

definition NODE_ID :: string where
  "NODE_ID = ''NODE_A''"

definition SAMPLES :: nat where
  "SAMPLES = 512"

definition SAMPLING_FREQ :: nat where
  "SAMPLING_FREQ = 6000"

definition IS_GATEWAY :: bool where
  "IS_GATEWAY = False"

subsection \<open>Hardware inputs and observable behaviour\<close>

text \<open>The wake cause reported by \<^verbatim>\<open>esp_sleep_get_wakeup_cause()\<close>. The firmwares only
  compare it with \<^verbatim>\<open>ESP_SLEEP_WAKEUP_EXT0\<close> (the piezo line); a power-on reset reports
  \<^verbatim>\<open>ESP_SLEEP_WAKEUP_UNDEFINED\<close>.\<close>

datatype wakeup_cause =
    ESP_SLEEP_WAKEUP_UNDEFINED
  | ESP_SLEEP_WAKEUP_EXT0
  | ESP_SLEEP_WAKEUP_EXT1
  | ESP_SLEEP_WAKEUP_TIMER
  | ESP_SLEEP_WAKEUP_TOUCHPAD
  | ESP_SLEEP_WAKEUP_ULP

text \<open>One reading of \<^verbatim>\<open>millis()\<close> at the head of the 30-second loop, together with the
  microphone readings (\<^verbatim>\<open>analogRead(MIC_PIN)\<close>, by sample index) that a window started at
  that moment acquires.\<close>

record tick =
  millis_now :: "32 word"
  mic_in :: "nat \<Rightarrow> nat"

record world =
  lora_begin :: bool                 \<comment> \<open>result of \<^verbatim>\<open>LoRa.begin(433E6)\<close>\<close>
  wakeup_reason :: wakeup_cause
  piezo :: "nat \<Rightarrow> bool"             \<comment> \<open>V2.0: \<^verbatim>\<open>digitalRead(PIEZO_PIN) == HIGH\<close> at the i-th read\<close>
  audio :: "nat \<Rightarrow> nat"              \<comment> \<open>V2.0: \<^verbatim>\<open>analogRead(MIC_PIN)\<close> at the i-th sample\<close>
  start_millis :: "32 word"          \<comment> \<open>production: \<^verbatim>\<open>millis()\<close> stored in \<^verbatim>\<open>start_time\<close>\<close>
  ticks :: "tick list"               \<comment> \<open>production: the loop-head clock readings, in order\<close>
  send_millis :: "32 word"           \<comment> \<open>production: \<^verbatim>\<open>millis()\<close> read inside \<^verbatim>\<open>send_packet\<close>\<close>
  bat_raw :: nat                     \<comment> \<open>production: \<^verbatim>\<open>analogRead(BAT_PIN)\<close>\<close>

datatype event =
    Led bool            \<comment> \<open>\<^verbatim>\<open>digitalWrite(LED_PIN, ...)\<close>\<close>
  | ReadPiezo           \<comment> \<open>the 100-read vibration window\<close>
  | SampleAudio         \<comment> \<open>one acquisition of \<^verbatim>\<open>SAMPLES\<close> microphone readings\<close>
  | ComputeFFT          \<comment> \<open>windowing, transform and magnitude reduction\<close>
  | Transmit string     \<comment> \<open>\<^verbatim>\<open>LoRa.beginPacket(); LoRa.print(payload); LoRa.endPacket();\<close>\<close>

text \<open>Where the processor is. \<open>Halted\<close> is the \<^verbatim>\<open>while (1);\<close> after a failed radio
  initialisation; \<open>Asleep\<close> is \<^verbatim>\<open>esp_deep_sleep_start()\<close>, which does not return (the
  next wake is a fresh boot); \<open>Looping\<close> is \<^verbatim>\<open>setup\<close> having returned to \<^verbatim>\<open>loop()\<close>;
  \<open>Unfinished\<close> says that the clock readings supplied in \<open>ticks\<close> ran out while the
  30-second loop was still running, so the loop has not been seen to exit.\<close>

datatype status = Running | Halted | Asleep | Looping | Unfinished

record mcu =
  vReal :: "real list"
  vImag :: "real list"
  vibrationTriggered :: bool
  trace :: "event list"
  status :: status

text \<open>The globals after reset: \<^verbatim>\<open>double vReal[SAMPLES]\<close>, \<^verbatim>\<open>double vImag[SAMPLES]\<close> are
  zero-initialised, \<^verbatim>\<open>bool vibrationTriggered = false\<close>.\<close>

definition boot :: mcu where
  "boot = \<lparr>vReal = replicate SAMPLES 0, vImag = replicate SAMPLES 0,
           vibrationTriggered = False, trace = [], status = Running\<rparr>"

text \<open>A statement placed after a call that does not return is never executed.\<close>

definition when_running :: "(mcu \<Rightarrow> mcu) \<Rightarrow> mcu \<Rightarrow> mcu" where
  "when_running f s = (if status s = Running then f s else s)"

definition emit :: "event \<Rightarrow> mcu \<Rightarrow> mcu" where
  "emit ev s = s\<lparr>trace := trace s @ [ev]\<rparr>"

subsection \<open>Sampler and Spectral Analyzer (common to both firmwares)\<close>

text \<open>The arduinoFFT library is not part of the repository. Its three in-place operations
  on the arrays \<^verbatim>\<open>vReal\<close>, \<^verbatim>\<open>vImag\<close> are parameters of the model.\<close>

record fft_lib =
  windowing :: "real list \<Rightarrow> real list"
  compute :: "real list \<times> real list \<Rightarrow> real list \<times> real list"
  complexToMagnitude :: "real list \<times> real list \<Rightarrow> real list"

text \<open>\<^verbatim>\<open>for (int i = 0; i < SAMPLES; i++) { vReal[i] = analogRead(MIC_PIN); vImag[i] = 0; ... }\<close>\<close>

definition store_sample :: "(nat \<Rightarrow> nat) \<Rightarrow> nat \<Rightarrow> mcu \<Rightarrow> mcu" where
  "store_sample m i s = s\<lparr>vReal := (vReal s)[i := real (m i)], vImag := (vImag s)[i := 0]\<rparr>"

definition sample_audio :: "(nat \<Rightarrow> nat) \<Rightarrow> mcu \<Rightarrow> mcu" where
  "sample_audio m s = fold (store_sample m) [0..<SAMPLES] (emit SampleAudio s)"

text \<open>\<^verbatim>\<open>FFT.windowing(FFT_WIN_TYP_HAMMING, FFT_FORWARD); FFT.compute(FFT_FORWARD);
  FFT.complexToMagnitude();\<close>\<close>

definition compute_fft :: "fft_lib \<Rightarrow> mcu \<Rightarrow> mcu" where
  "compute_fft lib s =
     (let s1 = (emit ComputeFFT s)\<lparr>vReal := windowing lib (vReal s)\<rparr>;
          ri = compute lib (vReal s1, vImag s1);
          s2 = s1\<lparr>vReal := fst ri, vImag := snd ri\<rparr>
      in s2\<lparr>vReal := complexToMagnitude lib (vReal s2, vImag s2)\<rparr>)"

text \<open>\<^verbatim>\<open>double e = 0; for (int i = lo; i < hi; i++) { e += vReal[i]; }\<close>\<close>

definition band_energy :: "real list \<Rightarrow> nat \<Rightarrow> nat \<Rightarrow> real" where
  "band_energy v lo hi = fold (\<lambda>i e. e + v ! i) [lo..<hi] 0"

text \<open>\<^verbatim>\<open>for (int i = 8; i < 51; i++) engine_energy += vReal[i];\<close> (both firmwares)\<close>

definition engine_energy :: "mcu \<Rightarrow> real" where
  "engine_energy s = band_energy (vReal s) 8 51"

text \<open>\<^verbatim>\<open>for (int i = 170; i < 256; i++) nature_energy += vReal[i];\<close> (production) and
  \<^verbatim>\<open>for (int i = 170; i < (SAMPLES/2); i++)\<close> (V2.0)\<close>

definition nature_energy :: "mcu \<Rightarrow> real" where
  "nature_energy s = band_energy (vReal s) 170 256"

definition nature_energy_v2 :: "mcu \<Rightarrow> real" where
  "nature_energy_v2 s = band_energy (vReal s) 170 (SAMPLES div 2)"

subsection \<open>Production sensor node: 30-second monitoring\<close>

record tally =
  chainsaw_votes :: nat
  wind_votes :: nat
  total_samples :: nat

text \<open>\<^verbatim>\<open>if (engine_energy > 50000 && engine_energy > (nature_energy * 2)) chainsaw_votes++;
  else if (nature_energy > engine_energy) wind_votes++;\<close>\<close>

definition cast_vote :: "real \<Rightarrow> real \<Rightarrow> tally \<Rightarrow> tally" where
  "cast_vote engine nature t =
     (if engine > 50000 \<and> engine > nature * 2 then t\<lparr>chainsaw_votes := chainsaw_votes t + 1\<rparr>
      else if nature > engine then t\<lparr>wind_votes := wind_votes t + 1\<rparr>
      else t)"

text \<open>One pass through the body of the \<^verbatim>\<open>while\<close> loop: sample, transform, sum the two
  bands, vote, \<^verbatim>\<open>total_samples++\<close>.\<close>

definition analysis_window :: "fft_lib \<Rightarrow> (nat \<Rightarrow> nat) \<Rightarrow> mcu \<times> tally \<Rightarrow> mcu \<times> tally" where
  "analysis_window lib m st =
     (let s = compute_fft lib (sample_audio m (fst st));
          t = cast_vote (engine_energy s) (nature_energy s) (snd st)
      in (s, t\<lparr>total_samples := total_samples t + 1\<rparr>))"

text \<open>\<^verbatim>\<open>unsigned long duration = 30000;\<close>\<close>

definition duration :: "32 word" where
  "duration = 30000"

text \<open>\<^verbatim>\<open>while (millis() - start_time < duration) { ... }\<close>, in 32-bit unsigned arithmetic.
  Each loop test consumes one clock reading.\<close>

fun monitor :: "fft_lib \<Rightarrow> 32 word \<Rightarrow> tick list \<Rightarrow> mcu \<times> tally \<Rightarrow> mcu \<times> tally" where
  "monitor lib start [] st = ((fst st)\<lparr>status := Unfinished\<rparr>, snd st)"
| "monitor lib start (k # ks) st =
     (if millis_now k - start < duration
      then monitor lib start ks (analysis_window lib (mic_in k) st)
      else st)"

text \<open>The comparison \<^verbatim>\<open>chainsaw_votes > (total_samples * 0.15)\<close>. Both counters are
  \<^verbatim>\<open>int\<close> and convert to \<^verbatim>\<open>double\<close> exactly. The literal \<^verbatim>\<open>0.15\<close> is the double
  \<open>5404319552844595 / 2^55\<close>; the product is rounded to 53 significant bits, to nearest,
  ties to even. \<open>round_to_53 p\<close> is that rounding of the integer \<open>p\<close>, and the comparison
  is carried out on numerators over the common denominator \<open>2^55\<close>.\<close>

definition round_to_53 :: "int \<Rightarrow> int" where
  "round_to_53 p =
     (let n = bitlen p in
      if n \<le> 53 then p
      else let sh = nat (n - 53); q = p div 2 ^ sh; r = p mod 2 ^ sh; h = 2 ^ (sh - 1)
           in (if r > h \<or> (r = h \<and> odd q) then q + 1 else q) * 2 ^ sh)"

definition DOUBLE_0_15 :: int where
  "DOUBLE_0_15 = 5404319552844595"

definition votes_exceed :: "nat \<Rightarrow> nat \<Rightarrow> bool" where
  "votes_exceed votes tot = (int votes * 2 ^ 55 > round_to_53 (int tot * DOUBLE_0_15))"

definition final_verdict :: "tally \<Rightarrow> string" where
  "final_verdict t =
     (if votes_exceed (chainsaw_votes t) (total_samples t) then ''CHAINSAW'' else ''TREE_FALL'')"

text \<open>Decimal rendering, as \<^verbatim>\<open>String(unsigned long)\<close> produces it.\<close>

definition digit :: "nat \<Rightarrow> char" where
  "digit d = ''0123456789'' ! d"

fun decimal :: "nat \<Rightarrow> string" where
  "decimal n = (if n < 10 then [digit n] else decimal (n div 10) @ [digit (n mod 10)])"

declare decimal.simps [simp del]

text \<open>\<^verbatim>\<open>float battery_volts = (analogRead(BAT_PIN) / 4095.0) * 3.3 * 2;\<close> rendered by
  \<^verbatim>\<open>String(battery_volts, 1)\<close>: one decimal place, rounded half up. The value is computed
  here in exact arithmetic, in tenths of a volt: \<open>raw * 6.6 / 4095\<close> volts is
  \<open>raw * 66 / 4095\<close> tenths, and adding one half before truncating gives
  \<open>(raw * 132 + 4095) div 8190\<close>.\<close>

definition battery_tenths :: "nat \<Rightarrow> nat" where
  "battery_tenths raw = (raw * 132 + 4095) div 8190"

definition battery_text :: "nat \<Rightarrow> string" where
  "battery_text raw =
     decimal (battery_tenths raw div 10) @ ''.'' @ [digit (battery_tenths raw mod 10)]"

text \<open>\<^verbatim>\<open>String payload = String(millis()) + "," + NODE_ID + "," + type + "," +
  String(battery_volts, 1) + "V";\<close>\<close>

definition payload :: "32 word \<Rightarrow> nat \<Rightarrow> string \<Rightarrow> string" where
  "payload ms raw type =
     decimal (unat ms) @ '','' @ NODE_ID @ '','' @ type @ '','' @ battery_text raw @ ''V''"

definition send_packet :: "world \<Rightarrow> string \<Rightarrow> mcu \<Rightarrow> mcu" where
  "send_packet w type s = emit (Transmit (payload (send_millis w) (bat_raw w) type)) s"

definition go_to_sleep :: "mcu \<Rightarrow> mcu" where
  "go_to_sleep s = s\<lparr>status := Asleep\<rparr>"

definition run_ai_analysis :: "fft_lib \<Rightarrow> world \<Rightarrow> mcu \<Rightarrow> mcu" where
  "run_ai_analysis lib w s =
     (let st = monitor lib (start_millis w) (ticks w)
                 (emit (Led True) s, \<lparr>chainsaw_votes = 0, wind_votes = 0, total_samples = 0\<rparr>)
      in when_running (send_packet w (final_verdict (snd st)))
           (when_running (emit (Led False)) (fst st)))"

definition setup_sensor :: "fft_lib \<Rightarrow> world \<Rightarrow> mcu" where
  "setup_sensor lib w =
     (if \<not> lora_begin w then boot\<lparr>status := Halted\<rparr>
      else when_running go_to_sleep
             (if wakeup_reason w = ESP_SLEEP_WAKEUP_EXT0 then run_ai_analysis lib w boot
              else send_packet w ''HEARTBEAT'' boot))"

subsection \<open>Firmware V2.0: one vibration window, one audio window\<close>

text \<open>\<^verbatim>\<open>String payload = NODE_ID + "," + type;\<close>\<close>

definition send_lora_alert :: "string \<Rightarrow> mcu \<Rightarrow> mcu" where
  "send_lora_alert type s = emit (Transmit (NODE_ID @ '','' @ type)) s"

definition goToDeepSleep :: "mcu \<Rightarrow> mcu" where
  "goToDeepSleep s = s\<lparr>status := Asleep\<rparr>"

text \<open>\<^verbatim>\<open>int hits = 0; for (int i=0; i<100; i++) { if (digitalRead(PIEZO_PIN) == HIGH) hits++; ... }\<close>\<close>

definition count_hits :: "(nat \<Rightarrow> bool) \<Rightarrow> nat" where
  "count_hits pz = fold (\<lambda>i hits. if pz i then hits + 1 else hits) [0..<100] 0"

text \<open>Part A of \<^verbatim>\<open>analyze_environment\<close>: theft detection.\<close>

definition theft_detection :: "world \<Rightarrow> mcu \<Rightarrow> mcu" where
  "theft_detection w s =
     (if vibrationTriggered s then
        (let s1 = emit ReadPiezo s in
         if count_hits (piezo w) > 5
         then when_running goToDeepSleep (send_lora_alert ''CLIMBING'' s1)
         else s1)
      else s)"

text \<open>Part B of \<^verbatim>\<open>analyze_environment\<close>: chainsaw detection, with
  \<^verbatim>\<open>double ratio = engine_energy / (nature_energy + 1);\<close> and the test
  \<^verbatim>\<open>ratio > 2.0 && engine_energy > 50000\<close>.\<close>

definition chainsaw_detection :: "fft_lib \<Rightarrow> world \<Rightarrow> mcu \<Rightarrow> mcu" where
  "chainsaw_detection lib w s =
     (let s1 = compute_fft lib (sample_audio (audio w) s);
          ratio = engine_energy s1 / (nature_energy_v2 s1 + 1);
          s2 = (if ratio > 2 \<and> engine_energy s1 > 50000
                then send_lora_alert ''CHAINSAW'' s1 else s1)
      in emit (Led False) s2)"

definition analyze_environment :: "fft_lib \<Rightarrow> world \<Rightarrow> mcu \<Rightarrow> mcu" where
  "analyze_environment lib w s =
     when_running (chainsaw_detection lib w) (theft_detection w (emit (Led True) s))"

definition setup_v2 :: "fft_lib \<Rightarrow> world \<Rightarrow> mcu" where
  "setup_v2 lib w =
     (if \<not> lora_begin w then boot\<lparr>status := Halted\<rparr>
      else if IS_GATEWAY then boot\<lparr>status := Looping\<rparr>
      else when_running goToDeepSleep
             (if wakeup_reason w = ESP_SLEEP_WAKEUP_EXT0
              then analyze_environment lib w (boot\<lparr>vibrationTriggered := True\<rparr>)
              else boot))"

subsection \<open>Observations on a run\<close>

text \<open>The payloads handed to the radio, in order.\<close>

definition frames :: "mcu \<Rightarrow> string list" where
  "frames s = concat (map (\<lambda>e. case e of Transmit p \<Rightarrow> [p] | _ \<Rightarrow> []) (trace s))"

text \<open>The EnergyProfile of the production firmware: the two band sums taken after the
  transform.\<close>

definition energy_profile :: "mcu \<Rightarrow> real \<times> real" where
  "energy_profile s = (engine_energy s, nature_energy s)"

text \<open>The arrays are declared with \<^verbatim>\<open>SAMPLES\<close> elements, and the library works in place,
  so it hands back arrays of the length it was given.\<close>

definition well_sized :: "mcu \<Rightarrow> bool" where
  "well_sized s = (length (vReal s) = SAMPLES \<and> length (vImag s) = SAMPLES)"

definition in_place :: "fft_lib \<Rightarrow> bool" where
  "in_place lib = (\<forall>re im.
      length (windowing lib re) = length re \<and>
      length (fst (compute lib (re, im))) = length re \<and>
      length (snd (compute lib (re, im))) = length im \<and>
      length (complexToMagnitude lib (re, im)) = length re)"

subsection \<open>Band limits as the specification derives them\<close>

text \<open>The specification derives the bin range of a band from the sampling rate and the
  buffer length: the bin width is \<open>SAMPLING_FREQ / SAMPLES\<close> (about 11.7 Hz), and a
  frequency lies in the bin obtained by dividing it by the bin width. The firmwares have no
  such function; their loop bounds are literals.\<close>

definition bin_of_hz :: "nat \<Rightarrow> nat" where
  "bin_of_hz hz = hz * SAMPLES div SAMPLING_FREQ"

subsection \<open>The radio frame as the interface specifies it\<close>

text \<open>The fields of a frame: the text between the commas.\<close>

fun split_commas :: "string \<Rightarrow> string list" where
  "split_commas [] = [[]]"
| "split_commas (c # cs) =
     (if c = CHR '','' then [] # split_commas cs
      else (case split_commas cs of f # fs \<Rightarrow> (c # f) # fs | [] \<Rightarrow> [[c]]))"

text \<open>A timestamp or counter is a non-empty string of decimal digits; a battery voltage is
  a decimal number with one decimal place followed by \<open>V\<close>.\<close>

definition is_digit :: "char \<Rightarrow> bool" where
  "is_digit c = (c \<in> set ''0123456789'')"

definition is_counter :: "string \<Rightarrow> bool" where
  "is_counter f = (f \<noteq> [] \<and> list_all is_digit f)"

definition is_voltage :: "string \<Rightarrow> bool" where
  "is_voltage f =
     (case rev f of
        v # d # pt # ip \<Rightarrow> v = CHR ''V'' \<and> is_digit d \<and> pt = CHR ''.'' \<and> is_counter ip
      | _ \<Rightarrow> False)"

text \<open>The fixed vocabulary of verdict tags, the weaker disturbance tag included.\<close>

definition VERDICT_TAGS :: "string list" where
  "VERDICT_TAGS = [''HEARTBEAT'', ''CHAINSAW'', ''CLIMBING'', ''TREE_FALL'']"

text \<open>A frame as the external interface describes it: a timestamp or counter, the node
  identity, a verdict tag of the vocabulary and the battery voltage, comma-delimited.\<close>

definition frame_ok :: "string \<Rightarrow> bool" where
  "frame_ok f =
     (case split_commas f of
        [ts, nid, tag, bat] \<Rightarrow>
          is_counter ts \<and> nid = NODE_ID \<and> tag \<in> set VERDICT_TAGS \<and> is_voltage bat
      | _ \<Rightarrow> False)"

subsection \<open>Further observations\<close>

text \<open>The clock readings supplied for the loop include one at which the loop test fails,
  that is, the 30 seconds do elapse.\<close>

definition clock_expires :: "world \<Rightarrow> bool" where
  "clock_expires w = list_ex (\<lambda>k. \<not> millis_now k - start_millis w < duration) (ticks w)"

text \<open>The VoteTally with which \<^verbatim>\<open>run_ai_analysis\<close> leaves its loop.\<close>

definition episode_tally :: "fft_lib \<Rightarrow> world \<Rightarrow> tally" where
  "episode_tally lib w =
     snd (monitor lib (start_millis w) (ticks w)
            (emit (Led True) boot, \<lparr>chainsaw_votes = 0, wind_votes = 0, total_samples = 0\<rparr>))"

subsection \<open>Concrete inputs\<close>

text \<open>A stand-in for the transform library that hands the samples through unchanged, so
  that runs can be evaluated on concrete inputs.\<close>

definition stub_fft :: fft_lib where
  "stub_fft = \<lparr>windowing = (\<lambda>re. re), compute = (\<lambda>ri. ri), complexToMagnitude = fst\<rparr>"

text \<open>A power-on boot with a working radio, and variations of it.\<close>

definition cold_boot :: world where
  "cold_boot = \<lparr>lora_begin = True, wakeup_reason = ESP_SLEEP_WAKEUP_UNDEFINED,
     piezo = (\<lambda>i. False), audio = (\<lambda>i. 0), start_millis = 12, ticks = [],
     send_millis = 15, bat_raw = 2048\<rparr>"

definition radio_dead :: world where
  "radio_dead = cold_boot\<lparr>lora_begin := False\<rparr>"

definition climbing_wake :: world where
  "climbing_wake = cold_boot\<lparr>wakeup_reason := ESP_SLEEP_WAKEUP_EXT0, piezo := (\<lambda>i. i < 6)\<rparr>"

text \<open>A vibration wake of the production firmware in which one window is analysed before
  the 30 seconds are over; with the stand-in library the samples \<open>loud_engine\<close> put
  all their energy below bin 100.\<close>

definition loud_engine :: "nat \<Rightarrow> nat" where
  "loud_engine i = (if i < 100 then 4095 else 0)"

definition chainsaw_wake :: world where
  "chainsaw_wake = cold_boot\<lparr>wakeup_reason := ESP_SLEEP_WAKEUP_EXT0, start_millis := 20,
     ticks := [\<lparr>millis_now = 20, mic_in = loud_engine\<rparr>,
               \<lparr>millis_now = 30020, mic_in = (\<lambda>i. 0)\<rparr>],
     send_millis := 30021\<rparr>"



text \<open>A magnitude spectrum whose only energy lies in bin 51 (597.7 Hz at 6000 Hz sampling
  and 512 points).\<close>

definition spike51 :: "real list" where
  "spike51 = map (\<lambda>i. if i = 51 then 1 else 0) [0..<512]"

section \<open>Basic facts about the embedding\<close>

lemma emit_simps [simp]:
  "trace (emit ev s) = trace s @ [ev]"
  "status (emit ev s) = status s"
  "vReal (emit ev s) = vReal s"
  "vImag (emit ev s) = vImag s"
  "vibrationTriggered (emit ev s) = vibrationTriggered s"
  by (simp_all add: emit_def)

lemma store_sample_simps [simp]:
  "trace (store_sample m i s) = trace s"
  "status (store_sample m i s) = status s"
  "vibrationTriggered (store_sample m i s) = vibrationTriggered s"
  by (simp_all add: store_sample_def)

lemma fold_store_sample_keeps:
  "trace (fold (store_sample m) xs s) = trace s \<and>
   status (fold (store_sample m) xs s) = status s \<and>
   vibrationTriggered (fold (store_sample m) xs s) = vibrationTriggered s"
  by (induction xs arbitrary: s) simp_all

lemma sample_audio_simps [simp]:
  "trace (sample_audio m s) = trace s @ [SampleAudio]"
  "status (sample_audio m s) = status s"
  "vibrationTriggered (sample_audio m s) = vibrationTriggered s"
  by (simp_all add: sample_audio_def fold_store_sample_keeps)

lemma compute_fft_simps [simp]:
  "trace (compute_fft lib s) = trace s @ [ComputeFFT]"
  "status (compute_fft lib s) = status s"
  "vibrationTriggered (compute_fft lib s) = vibrationTriggered s"
  by (simp_all add: compute_fft_def Let_def)

lemma analysis_window_simps [simp]:
  "trace (fst (analysis_window lib m st)) = trace (fst st) @ [SampleAudio, ComputeFFT]"
  "status (fst (analysis_window lib m st)) = status (fst st)"
  by (simp_all add: analysis_window_def Let_def)

lemma frames_simps [simp]:
  "frames (emit (Transmit p) s) = frames s @ [p]"
  "frames (emit (Led b) s) = frames s"
  "frames (emit ReadPiezo s) = frames s"
  "frames (emit SampleAudio s) = frames s"
  "frames (emit ComputeFFT s) = frames s"
  "frames (s\<lparr>status := x\<rparr>) = frames s"
  "frames (s\<lparr>vibrationTriggered := b\<rparr>) = frames s"
  by (simp_all add: frames_def)

lemma frames_window [simp]:
  "frames (compute_fft lib s) = frames s"
  "frames (sample_audio m s) = frames s"
  by (simp_all add: frames_def)

lemma frames_analysis_window [simp]:
  "frames (fst (analysis_window lib m st)) = frames (fst st)"
  by (simp add: frames_def)

lemma boot_simps [simp]:
  "trace boot = []"
  "status boot = Running"
  "vibrationTriggered boot = False"
  "frames boot = []"
  by (simp_all add: boot_def frames_def)

text \<open>The monitoring loop transmits nothing, and leaves the processor either running (the
  loop test failed) or still inside the loop (the supplied clock readings ran out).\<close>

lemma monitor_frames: "frames (fst (monitor lib start ks st)) = frames (fst st)"
  by (induction ks arbitrary: st) simp_all

lemma monitor_status:
  "status (fst st) = Running \<Longrightarrow>
   status (fst (monitor lib start ks st)) = Running \<or>
   status (fst (monitor lib start ks st)) = Unfinished"
  by (induction ks arbitrary: st) simp_all

text \<open>The vibration loop counts the active reads among the 100.\<close>

lemma fold_count_card:
  "fold (\<lambda>i hits. if pz i then hits + 1 else hits) [0..<n] 0 = card {i. i < n \<and> pz i}"
proof (induction n)
  case 0
  then show ?case by simp
next
  case (Suc n)
  have "{i. i < Suc n \<and> pz i} =
        (if pz n then insert n {i. i < n \<and> pz i} else {i. i < n \<and> pz i})"
    by (auto simp: less_Suc_eq)
  with Suc show ?case by simp
qed

lemma count_hits_card: "count_hits pz = card {i. i < 100 \<and> pz i}"
  by (simp add: count_hits_def fold_count_card)

section \<open>Radio initialisation failure (C7)\<close>

text \<open>
  Claim C7. If the radio transceiver fails to initialise at boot, the device halts for
  that boot cycle and performs no sampling, classification or transmission (its trace of
  actions is empty); conversely the device goes on past the halt exactly when the radio
  reported success. This holds for both sensor firmwares.
\<close>

theorem radio_failure_halts:
  "(status (setup_sensor lib w) = Halted \<longleftrightarrow> \<not> lora_begin w) \<and>
   (status (setup_v2 lib w) = Halted \<longleftrightarrow> \<not> lora_begin w) \<and>
   (\<not> lora_begin w \<longrightarrow> trace (setup_sensor lib w) = [] \<and> trace (setup_v2 lib w) = [])"
proof -
  have a: "status (setup_sensor lib w) = Halted \<longleftrightarrow> \<not> lora_begin w"
    using monitor_status [of "(emit (Led True) boot,
        \<lparr>chainsaw_votes = 0, wind_votes = 0, total_samples = 0\<rparr>)" lib "start_millis w" "ticks w"]
    by (auto simp: setup_sensor_def when_running_def go_to_sleep_def run_ai_analysis_def
        send_packet_def Let_def)
  have b: "status (setup_v2 lib w) = Halted \<longleftrightarrow> \<not> lora_begin w"
    by (auto simp: setup_v2_def when_running_def goToDeepSleep_def analyze_environment_def
        theft_detection_def chainsaw_detection_def send_lora_alert_def Let_def IS_GATEWAY_def)
  have c: "\<not> lora_begin w \<longrightarrow> trace (setup_sensor lib w) = [] \<and> trace (setup_v2 lib w) = []"
    by (simp add: setup_sensor_def setup_v2_def)
  from a b c show ?thesis by blast
qed

theorem radio_failure_halts_witness:
  "\<not> lora_begin radio_dead \<and>
   status (setup_sensor stub_fft radio_dead) = Halted \<and>
   trace (setup_sensor stub_fft radio_dead) = [] \<and>
   status (setup_v2 stub_fft radio_dead) = Halted \<and>
   trace (setup_v2 stub_fft radio_dead) = []"
proof -
  have h: "\<not> lora_begin radio_dead"
    by (simp add: radio_dead_def cold_boot_def)
  with radio_failure_halts [of stub_fft radio_dead] show ?thesis by simp
qed

section \<open>Vibration short-circuit (C4)\<close>

text \<open>
  Claim C4. In firmware V2.0, a vibration-triggered episode whose 100-read vibration
  window counts more than 5 active reads transmits CLIMBING and goes to deep sleep; the
  audio sampler and the spectral analyser are never invoked. (The production firmware has
  no vibration window.)
\<close>

theorem climbing_short_circuits:
  assumes "lora_begin w" and "wakeup_reason w = ESP_SLEEP_WAKEUP_EXT0"
    and "card {i. i < 100 \<and> piezo w i} > 5"
  shows "trace (setup_v2 lib w) = [Led True, ReadPiezo, Transmit ''NODE_A,CLIMBING'']
       \<and> status (setup_v2 lib w) = Asleep
       \<and> SampleAudio \<notin> set (trace (setup_v2 lib w))
       \<and> ComputeFFT \<notin> set (trace (setup_v2 lib w))"
  using assms
  by (simp add: setup_v2_def IS_GATEWAY_def analyze_environment_def theft_detection_def
      count_hits_card when_running_def send_lora_alert_def goToDeepSleep_def NODE_ID_def Let_def)

theorem climbing_short_circuits_witness:
  "card {i. i < 100 \<and> piezo climbing_wake i} = 6 \<and>
   trace (setup_v2 stub_fft climbing_wake) = [Led True, ReadPiezo, Transmit ''NODE_A,CLIMBING''] \<and>
   status (setup_v2 stub_fft climbing_wake) = Asleep"
proof -
  have h: "card {i. i < 100 \<and> piezo climbing_wake i} = 6"
  proof -
    have "count_hits (\<lambda>i. i < 6) = 6" by code_simp
    then show ?thesis by (simp add: count_hits_card climbing_wake_def cold_boot_def)
  qed
  have "lora_begin climbing_wake" "wakeup_reason climbing_wake = ESP_SLEEP_WAKEUP_EXT0"
    by (simp_all add: climbing_wake_def cold_boot_def)
  with h climbing_short_circuits [of climbing_wake stub_fft] show ?thesis by simp
qed

section \<open>Cold boot (C5)\<close>

text \<open>
  Claim C5 says that every cold boot transmits a single HEARTBEAT packet. Firmware V2.0
  has no heartbeat: on a cold boot it transmits nothing and goes to sleep.
\<close>

theorem cold_boot_v2_sends_nothing:
  "lora_begin cold_boot \<and> wakeup_reason cold_boot = ESP_SLEEP_WAKEUP_UNDEFINED \<and>
   frames (setup_v2 stub_fft cold_boot) = []"
  by (simp add: setup_v2_def IS_GATEWAY_def cold_boot_def when_running_def goToDeepSleep_def)

text \<open>
  Claim C5, amended. On every cold boot (working radio, wake cause other than the external
  line) the device skips classification and returns to dormant without entering
  monitoring: the production firmware does nothing but transmit one HEARTBEAT packet, and
  firmware V2.0 does nothing at all.
\<close>

theorem cold_boot_behaviour:
  assumes "lora_begin w" and "wakeup_reason w \<noteq> ESP_SLEEP_WAKEUP_EXT0"
  shows "trace (setup_sensor lib w) =
           [Transmit (payload (send_millis w) (bat_raw w) ''HEARTBEAT'')]
       \<and> status (setup_sensor lib w) = Asleep
       \<and> trace (setup_v2 lib w) = []
       \<and> status (setup_v2 lib w) = Asleep"
  using assms
  by (simp add: setup_sensor_def setup_v2_def IS_GATEWAY_def when_running_def send_packet_def
      go_to_sleep_def goToDeepSleep_def)

theorem cold_boot_behaviour_witness:
  "trace (setup_sensor stub_fft cold_boot) = [Transmit ''15,NODE_A,HEARTBEAT,3.3V''] \<and>
   status (setup_sensor stub_fft cold_boot) = Asleep \<and>
   trace (setup_v2 stub_fft cold_boot) = [] \<and>
   status (setup_v2 stub_fft cold_boot) = Asleep"
proof -
  have h: "lora_begin cold_boot" "wakeup_reason cold_boot \<noteq> ESP_SLEEP_WAKEUP_EXT0"
    by (simp_all add: cold_boot_def)
  have p: "payload (send_millis cold_boot) (bat_raw cold_boot) ''HEARTBEAT'' =
           ''15,NODE_A,HEARTBEAT,3.3V''"
    by (simp add: cold_boot_def payload_def NODE_ID_def battery_text_def battery_tenths_def
        digit_def decimal.simps)
  from cold_boot_behaviour [OF h, of stub_fft] p show ?thesis by simp
qed

section \<open>At most one packet per episode (C8)\<close>

text \<open>
  Claim C8. In every boot cycle at most one packet is transmitted, in either firmware:
  once a packet has been sent there is no second transmission before the device sleeps.
  The payload is built inside the sending routine and nothing of it is kept.
\<close>

theorem at_most_one_frame:
  "length (frames (setup_sensor lib w)) \<le> 1 \<and> length (frames (setup_v2 lib w)) \<le> 1"
proof -
  have "length (frames (setup_sensor lib w)) \<le> 1"
    by (simp add: setup_sensor_def when_running_def go_to_sleep_def run_ai_analysis_def
        send_packet_def Let_def monitor_frames)
  moreover have "length (frames (setup_v2 lib w)) \<le> 1"
    by (simp add: setup_v2_def when_running_def goToDeepSleep_def analyze_environment_def
        theft_detection_def chainsaw_detection_def send_lora_alert_def Let_def IS_GATEWAY_def
        frames_def)
  ultimately show ?thesis by simp
qed

section \<open>The Sampler and the Spectral Analyzer\<close>

lemma store_sample_arrays [simp]:
  "vReal (store_sample m i s) = (vReal s)[i := real (m i)]"
  "vImag (store_sample m i s) = (vImag s)[i := 0]"
  by (simp_all add: store_sample_def)

text \<open>After \<open>n\<close> turns of the sampling loop the first \<open>n\<close> cells of both arrays are
  overwritten.\<close>

lemma fold_store_sample_arrays:
  "n \<le> length (vReal s) \<Longrightarrow> n \<le> length (vImag s) \<Longrightarrow>
   vReal (fold (store_sample m) [0..<n] s) = map (\<lambda>i. real (m i)) [0..<n] @ drop n (vReal s) \<and>
   vImag (fold (store_sample m) [0..<n] s) = replicate n 0 @ drop n (vImag s)"
proof (induction n)
  case 0
  then show ?case by simp
next
  case (Suc n)
  then have ih:
    "vReal (fold (store_sample m) [0..<n] s) = map (\<lambda>i. real (m i)) [0..<n] @ drop n (vReal s)"
    "vImag (fold (store_sample m) [0..<n] s) = replicate n 0 @ drop n (vImag s)"
    by simp_all
  from Suc.prems have d:
    "drop n (vReal s) = vReal s ! n # drop (Suc n) (vReal s)"
    "drop n (vImag s) = vImag s ! n # drop (Suc n) (vImag s)"
    by (simp_all add: Cons_nth_drop_Suc)
  show ?case
    by (simp add: ih list_update_append d replicate_append_same)
qed

lemma sample_audio_arrays:
  assumes "well_sized s"
  shows "vReal (sample_audio m s) = map (\<lambda>i. real (m i)) [0..<SAMPLES]"
    and "vImag (sample_audio m s) = replicate SAMPLES 0"
  using assms fold_store_sample_arrays [of SAMPLES "emit SampleAudio s" m]
  by (simp_all add: sample_audio_def well_sized_def)

lemma compute_fft_arrays:
  "vReal (compute_fft lib s) =
     complexToMagnitude lib (compute lib (windowing lib (vReal s), vImag s))"
  "vImag (compute_fft lib s) = snd (compute lib (windowing lib (vReal s), vImag s))"
  by (simp_all add: compute_fft_def Let_def)

lemma in_place_lengths:
  assumes "in_place lib" and "length re = n" and "length im = n"
  shows "length (complexToMagnitude lib (compute lib (windowing lib re, im))) = n"
    and "length (snd (compute lib (windowing lib re, im))) = n"
proof -
  obtain re' im' where c: "compute lib (windowing lib re, im) = (re', im')"
    by (cases "compute lib (windowing lib re, im)")
  from assms(1) have w: "length (windowing lib re) = length re"
    by (simp add: in_place_def)
  from assms(1)
  have "length (fst (compute lib (windowing lib re, im))) = length (windowing lib re)"
    and i: "length (snd (compute lib (windowing lib re, im))) = length im"
    unfolding in_place_def by blast+
  with c w assms have r: "length re' = n" by simp
  from assms(1) have "length (complexToMagnitude lib (re', im')) = length re'"
    unfolding in_place_def by blast
  with c r show "length (complexToMagnitude lib (compute lib (windowing lib re, im))) = n"
    by simp
  from i assms show "length (snd (compute lib (windowing lib re, im))) = n" by simp
qed

lemma well_sized_analysis:
  assumes "in_place lib" and "well_sized s"
  shows "well_sized (compute_fft lib (sample_audio m s))"
  using in_place_lengths [OF assms(1), of "map (\<lambda>i. real (m i)) [0..<SAMPLES]" SAMPLES
      "replicate SAMPLES 0"]
  by (simp add: well_sized_def compute_fft_arrays sample_audio_arrays [OF assms(2)])

lemma well_sized_boot: "well_sized boot"
  by (simp add: well_sized_def boot_def)

lemma in_place_stub_fft: "in_place stub_fft"
  by (simp add: in_place_def stub_fft_def)

text \<open>With the stand-in library the magnitudes are the samples.\<close>

lemma stub_window_vReal:
  assumes "well_sized s"
  shows "vReal (compute_fft stub_fft (sample_audio m s)) = map (\<lambda>i. real (m i)) [0..<SAMPLES]"
  using sample_audio_arrays [OF assms, of m] by (simp add: compute_fft_arrays stub_fft_def)

text \<open>The band loops as sums over bin indices.\<close>

lemma fold_add_sum: "fold (\<lambda>i e. e + f i) xs (a::real) = a + sum_list (map f xs)"
  by (induction xs arbitrary: a) simp_all

lemma band_energy_sum: "band_energy v lo hi = (\<Sum>i = lo..<hi. v ! i)"
  by (simp add: band_energy_def fold_add_sum interv_sum_list_conv_sum_set_nat)

lemma engine_energy_bins: "engine_energy s = (\<Sum>i = 8..50. vReal s ! i)"
proof -
  have "{8..<51::nat} = {8..50}" by auto
  then show ?thesis by (simp add: engine_energy_def band_energy_sum)
qed


section \<open>The low band (C3)\<close>

text \<open>Whatever magnitude bin 51 holds, the low-band energy of the code does not change.\<close>

lemma engine_energy_ignores_bin_51:
  "engine_energy (s\<lparr>vReal := (vReal s)[51 := x]\<rparr>) = engine_energy s"
  unfolding engine_energy_bins by (rule sum.cong) simp_all

text \<open>
  Claim C3 says that, at 6000 Hz and 512 points, the band 100 to 600 Hz is the bins 8 to 51
  inclusive and that the low-band energy is the sum of the bin magnitudes over these bins.
  The band limits do fall into the bins 8 and 51, but the loop of both firmwares runs over
  \<open>8 \<le> i < 51\<close>, that is over the bins 8 to 50: on a spectrum whose only energy lies in
  bin 51, the sum over the bins 8 to 51 is 1 and the low-band energy computed by the code
  is 0.
\<close>

theorem engine_band_misses_bin_51:
  "bin_of_hz 100 = 8 \<and> bin_of_hz 600 = 51 \<and>
   length spike51 = SAMPLES \<and> (\<Sum>i = 8..51. spike51 ! i) = 1 \<and>
   engine_energy (boot\<lparr>vReal := spike51\<rparr>) = 0"
proof -
  have h: "bin_of_hz 100 = 8" "bin_of_hz 600 = 51"
    by (simp_all add: bin_of_hz_def SAMPLES_def SAMPLING_FREQ_def)
  have a: "length spike51 = SAMPLES"
    by (simp add: spike51_def SAMPLES_def)
  have n: "\<And>i. i < 512 \<Longrightarrow> spike51 ! i = (if i = 51 then 1 else 0)"
    by (simp add: spike51_def)
  have z: "(\<Sum>i = 8..50. spike51 ! i) = (\<Sum>i = 8..50::nat. 0)"
    by (rule sum.cong) (simp_all add: n)
  have "{8..51::nat} = insert 51 {8..50}" by auto
  then have "(\<Sum>i = 8..51. spike51 ! i) = spike51 ! 51 + (\<Sum>i = 8..50. spike51 ! i)"
    by simp
  with z have b: "(\<Sum>i = 8..51. spike51 ! i) = 1"
    by (simp add: n)
  have "engine_energy (boot\<lparr>vReal := spike51\<rparr>) = (\<Sum>i = 8..50. spike51 ! i)"
    by (simp add: engine_energy_bins)
  with z have c: "engine_energy (boot\<lparr>vReal := spike51\<rparr>) = 0"
    by simp
  from h a b c show ?thesis by simp
qed

section \<open>The classification of one window (C2)\<close>




section \<open>Purity of the spectral analysis (C9)\<close>

text \<open>
  Claim C9. The energy profile of a window is a function of the samples of that window
  alone: whatever the global arrays held before (both are overwritten in full by the
  sampling loop), the same samples give the same low-band and high-band energies; and
  analysing the same samples a second time, right after the first, gives the same profile
  again. The transform library is a parameter; for the second statement it is taken to
  return arrays of the length it received.
\<close>

theorem spectral_analysis_pure:
  assumes "well_sized s" and "well_sized s'"
  shows "energy_profile (compute_fft lib (sample_audio m s)) =
           energy_profile (compute_fft lib (sample_audio m s'))
       \<and> (in_place lib \<longrightarrow>
            energy_profile (compute_fft lib (sample_audio m (compute_fft lib (sample_audio m s)))) =
            energy_profile (compute_fft lib (sample_audio m s)))"
proof -
  have v: "vReal (compute_fft lib (sample_audio m t)) =
           complexToMagnitude lib
             (compute lib (windowing lib (map (\<lambda>i. real (m i)) [0..<SAMPLES]),
                           replicate SAMPLES 0))"
    if "well_sized t" for t
    using sample_audio_arrays [OF that, of m] by (simp add: compute_fft_arrays)
  have p: "energy_profile (compute_fft lib (sample_audio m t)) =
           energy_profile (compute_fft lib (sample_audio m s))"
    if "well_sized t" for t
    using v [OF that] v [OF assms(1)]
    by (simp add: energy_profile_def engine_energy_def nature_energy_def)
  from p [OF assms(2)] p [OF well_sized_analysis [OF _ assms(1)]]
  show ?thesis by simp
qed

theorem spectral_analysis_pure_witness:
  "well_sized boot \<and> well_sized (boot\<lparr>vReal := spike51\<rparr>) \<and> in_place stub_fft \<and>
   energy_profile (compute_fft stub_fft (sample_audio (\<lambda>i. 7) boot)) =
     energy_profile (compute_fft stub_fft (sample_audio (\<lambda>i. 7) (boot\<lparr>vReal := spike51\<rparr>))) \<and>
   energy_profile (compute_fft stub_fft (sample_audio (\<lambda>i. 7)
       (compute_fft stub_fft (sample_audio (\<lambda>i. 7) boot)))) =
     energy_profile (compute_fft stub_fft (sample_audio (\<lambda>i. 7) boot))"
proof -
  have a: "well_sized boot" by (rule well_sized_boot)
  have b: "well_sized (boot\<lparr>vReal := spike51\<rparr>)"
    by (simp add: well_sized_def boot_def spike51_def SAMPLES_def)
  from spectral_analysis_pure [OF a b, of stub_fft "\<lambda>i. 7"] a b in_place_stub_fft
  show ?thesis by simp
qed

section \<open>The 15 percent threshold (C1)\<close>

text \<open>The rounding of a non-negative integer to 53 significant bits: either the integer
  is short enough to be kept, or the result is a multiple of the unit \<open>2 ^ sh\<close> of its
  binade, at most half a unit away.\<close>

lemma round_to_53_cases:
  assumes "0 \<le> p"
  shows "(round_to_53 p = p \<and> p < 2 ^ 53) \<or>
         (\<exists>sh. 1 \<le> sh \<and> 2 ^ 52 * 2 ^ sh \<le> p \<and> p < 2 ^ 53 * 2 ^ sh \<and>
               (2::int) ^ sh dvd round_to_53 p \<and>
               2 * round_to_53 p \<le> 2 * p + 2 ^ sh \<and> 2 * p \<le> 2 * round_to_53 p + 2 ^ sh)"
proof (cases "bitlen p \<le> 53")
  case True
  have "p < 2 ^ 53"
  proof (cases "p = 0")
    case True
    then show ?thesis by simp
  next
    case False
    with assms have "0 < p" by simp
    then have "p < 2 ^ nat (bitlen p)" using bitlen_bounds by blast
    also have "(2::int) ^ nat (bitlen p) \<le> 2 ^ 53"
      using True by (intro power_increasing) simp_all
    finally show ?thesis .
  qed
  with True show ?thesis by (simp add: round_to_53_def)
next
  case False
  define sh where "sh = nat (bitlen p - 53)"
  define B :: int where "B = 2 ^ sh"
  define H :: int where "H = 2 ^ (sh - 1)"
  define q where "q = p div B"
  define r where "r = p mod B"
  from False have sh1: "1 \<le> sh" by (simp add: sh_def)
  have "p \<noteq> 0" using False by auto
  with assms have pos: "0 < p" by simp
  have n1: "nat (bitlen p - 1) = 52 + sh" and n2: "nat (bitlen p) = 53 + sh"
    using False by (simp_all add: sh_def)
  from bitlen_bounds [OF pos] have lo: "2 ^ 52 * B \<le> p" and hi: "p < 2 ^ 53 * B"
    by (simp_all add: n1 n2 power_add B_def)
  have BH: "B = 2 * H"
    using sh1 by (cases sh) (simp_all add: B_def H_def)
  have Bpos: "0 < B" by (simp add: B_def)
  have r0: "0 \<le> r" and rB: "r < B" using Bpos by (simp_all add: r_def)
  define QB where "QB = q * B"
  have pq: "p = QB + r" by (simp add: QB_def q_def r_def)
  have R: "round_to_53 p = (if r > H \<or> (r = H \<and> odd q) then q + 1 else q) * B"
    using False by (simp add: round_to_53_def Let_def sh_def B_def H_def q_def r_def)
  have d: "B dvd round_to_53 p" by (simp add: R)
  have e: "2 * round_to_53 p \<le> 2 * p + B \<and> 2 * p \<le> 2 * round_to_53 p + B"
  proof (cases "r > H \<or> (r = H \<and> odd q)")
    case True
    then have "round_to_53 p = QB + B" by (simp add: R QB_def algebra_simps)
    moreover from True have "H \<le> r" by auto
    ultimately show ?thesis using pq r0 rB BH by linarith
  next
    case False
    then have "round_to_53 p = QB" by (auto simp: R QB_def)
    moreover from False have "r \<le> H" by auto
    ultimately show ?thesis using pq r0 rB BH by linarith
  qed
  from sh1 lo hi d e show ?thesis unfolding B_def by blast
qed

lemma votes_exceed_iff:
  assumes "tot < 2 ^ 31"
  shows "votes_exceed votes tot \<longleftrightarrow> 15 * tot < 100 * votes"
proof -
  define t where "t = int tot"
  define v where "v = int votes"
  define p where "p = t * 5404319552844595"
  define R where "R = round_to_53 p"
  have t0: "0 \<le> t" and t31: "t < 2147483648" and v0: "0 \<le> v"
    using assms by (simp_all add: t_def v_def)
  have p0: "0 \<le> p" using t0 by (simp add: p_def)
  have goal: "(v * 36028797018963968 > R) \<longleftrightarrow> 3 * t < 20 * v"
    using round_to_53_cases [OF p0]
  proof
    assume "round_to_53 p = p \<and> p < 2 ^ 53"
    then have "R = p" "p < 9007199254740992" by (simp_all add: R_def)
    then show ?thesis using t0 v0 unfolding p_def by linarith
  next
    assume "\<exists>sh. 1 \<le> sh \<and> 2 ^ 52 * 2 ^ sh \<le> p \<and> p < 2 ^ 53 * 2 ^ sh \<and>
               (2::int) ^ sh dvd round_to_53 p \<and>
               2 * round_to_53 p \<le> 2 * p + 2 ^ sh \<and> 2 * p \<le> 2 * round_to_53 p + 2 ^ sh"
    then obtain sh where sh: "1 \<le> sh" "2 ^ 52 * 2 ^ sh \<le> p" "p < 2 ^ 53 * 2 ^ sh"
      "(2::int) ^ sh dvd R" "2 * R \<le> 2 * p + 2 ^ sh" "2 * p \<le> 2 * R + 2 ^ sh"
      unfolding R_def by blast
    define B :: int where "B = 2 ^ sh"
    have B: "4503599627370496 * B \<le> p" "p < 9007199254740992 * B" "B dvd R"
      "2 * R \<le> 2 * p + B" "2 * p \<le> 2 * R + B"
      using sh by (simp_all add: B_def)
    have Bpos: "0 < B" by (simp add: B_def)
    have Bsmall: "B < 4294967296"
      using B(1) t31 t0 unfolding p_def by linarith
    have "sh < 32"
    proof (rule power_less_imp_less_exp)
      show "(1::int) < 2" by simp
      show "(2::int) ^ sh < 2 ^ 32" using Bsmall by (simp add: B_def)
    qed
    then have "(2::int) ^ sh dvd 2 ^ 55" by (intro le_imp_power_dvd) simp
    then have Bdvd: "B dvd 36028797018963968" by (simp add: B_def)
    consider "3 * t < 20 * v" | "20 * v < 3 * t" | "3 * t = 20 * v" by linarith
    then show ?thesis
    proof cases
      case 1
      then show ?thesis using B(4,5) Bsmall t0 t31 unfolding p_def by linarith
    next
      case 2
      then show ?thesis using B(4,5) Bsmall t0 t31 unfolding p_def by linarith
    next
      case 3
      define V where "V = v * 36028797018963968"
      have BV: "B dvd V" using Bdvd by (simp add: V_def)
      have pV: "5 * V = 5 * p + t" using 3 by (simp add: V_def p_def)
      have small: "2 * V < 2 * p + B" "p \<le> V"
        using pV B(2) t0 unfolding p_def by linarith+
      have "\<bar>R - V\<bar> < B" using small B(4,5) by linarith
      moreover have "B dvd (R - V)" using B(3) BV by (rule dvd_diff)
      ultimately have "R - V = 0"
      proof -
        assume lt: "\<bar>R - V\<bar> < B" and dv: "B dvd R - V"
        show ?thesis
        proof (rule ccontr)
          assume "R - V \<noteq> 0"
          then have "0 < \<bar>R - V\<bar>" by simp
          moreover from dv have "B dvd \<bar>R - V\<bar>" by simp
          ultimately have "B \<le> \<bar>R - V\<bar>" by (rule zdvd_imp_le [rotated])
          with lt show False by simp
        qed
      qed
      then show ?thesis using 3 by (simp add: V_def)
    qed
  qed
  have "votes_exceed votes tot \<longleftrightarrow> v * 36028797018963968 > R"
    by (simp add: votes_exceed_def DOUBLE_0_15_def R_def p_def t_def v_def)
  also have "\<dots> \<longleftrightarrow> 3 * t < 20 * v" by (rule goal)
  also have "\<dots> \<longleftrightarrow> 15 * tot < 100 * votes"
    unfolding t_def v_def by linarith
  finally show ?thesis .
qed

text \<open>
  Claim C1. For every tally whose window count is in the range of \<^verbatim>\<open>int\<close>, the final
  verdict of the voting classifier is CHAINSAW exactly when the positive votes exceed 15%
  of the windows (\<open>100 * votes > 15 * windows\<close>), and TREE_FALL otherwise: the rounded
  double product \<^verbatim>\<open>total_samples * 0.15\<close> never moves the comparison. In particular 16
  votes out of 100 give CHAINSAW, 15 and 14 out of 100 do not.
\<close>

theorem final_verdict_threshold:
  assumes "total_samples t < 2 ^ 31"
  shows "final_verdict t =
           (if 15 * total_samples t < 100 * chainsaw_votes t then ''CHAINSAW'' else ''TREE_FALL'')"
  by (simp add: final_verdict_def votes_exceed_iff [OF assms])

theorem final_verdict_threshold_witness:
  "final_verdict \<lparr>chainsaw_votes = 16, wind_votes = 0, total_samples = 100\<rparr> = ''CHAINSAW'' \<and>
   final_verdict \<lparr>chainsaw_votes = 15, wind_votes = 0, total_samples = 100\<rparr> = ''TREE_FALL'' \<and>
   final_verdict \<lparr>chainsaw_votes = 14, wind_votes = 0, total_samples = 100\<rparr> = ''TREE_FALL''"
  using final_verdict_threshold [of "\<lparr>chainsaw_votes = 16, wind_votes = 0, total_samples = 100\<rparr>"]
    final_verdict_threshold [of "\<lparr>chainsaw_votes = 15, wind_votes = 0, total_samples = 100\<rparr>"]
    final_verdict_threshold [of "\<lparr>chainsaw_votes = 14, wind_votes = 0, total_samples = 100\<rparr>"]
  by simp

section \<open>The outcome of a monitoring episode (C10)\<close>

text \<open>The loop counts one window per successful loop test, and it is left in the running
  state as soon as a clock reading fails the test.\<close>

lemma analysis_window_total [simp]:
  "total_samples (snd (analysis_window lib m st)) = total_samples (snd st) + 1"
  by (simp add: analysis_window_def cast_vote_def Let_def)

lemma monitor_total:
  "total_samples (snd (monitor lib start ks st)) =
   total_samples (snd st) + length (takeWhile (\<lambda>k. millis_now k - start < duration) ks)"
  by (induction ks arbitrary: st) simp_all

lemma monitor_returns:
  "status (fst st) = Running \<Longrightarrow> list_ex (\<lambda>k. \<not> millis_now k - start < duration) ks \<Longrightarrow>
   status (fst (monitor lib start ks st)) = Running"
  by (induction ks arbitrary: st) simp_all

text \<open>One window of \<open>loud_engine\<close> samples under the stand-in library.\<close>

lemma loud_engine_profile:
  assumes "well_sized s"
  shows "engine_energy (compute_fft stub_fft (sample_audio loud_engine s)) = 176085"
    and "nature_energy (compute_fft stub_fft (sample_audio loud_engine s)) = 0"
proof -
  have "engine_energy (compute_fft stub_fft (sample_audio loud_engine s)) =
        (\<Sum>i = 8..<51. real (loud_engine i))"
    unfolding engine_energy_def band_energy_sum stub_window_vReal [OF assms]
    by (rule sum.cong) (simp_all add: SAMPLES_def)
  also have "\<dots> = (\<Sum>i = 8..<51::nat. 4095)"
    by (rule sum.cong) (simp_all add: loud_engine_def)
  finally show "engine_energy (compute_fft stub_fft (sample_audio loud_engine s)) = 176085"
    by simp
  have "nature_energy (compute_fft stub_fft (sample_audio loud_engine s)) =
        (\<Sum>i = 170..<256. real (loud_engine i))"
    unfolding nature_energy_def band_energy_sum stub_window_vReal [OF assms]
    by (rule sum.cong) (simp_all add: SAMPLES_def)
  also have "\<dots> = (\<Sum>i = 170..<256::nat. 0)"
    by (rule sum.cong) (simp_all add: loud_engine_def)
  finally show "nature_energy (compute_fft stub_fft (sample_audio loud_engine s)) = 0"
    by simp
qed

lemma chainsaw_wake_tally:
  "episode_tally stub_fft chainsaw_wake = \<lparr>chainsaw_votes = 1, wind_votes = 0, total_samples = 1\<rparr>"
proof -
  have w: "well_sized (emit (Led True) boot)"
    by (simp add: well_sized_def boot_def)
  show ?thesis
    by (simp add: episode_tally_def chainsaw_wake_def cold_boot_def duration_def
        analysis_window_def Let_def cast_vote_def loud_engine_profile [OF w])
qed

text \<open>
  Claim C10. In the production (30-second) firmware, every vibration-triggered episode
  (radio initialised, the 30 seconds elapse) transmits exactly one packet and then
  sleeps: CHAINSAW when the positive votes exceed 15% of the windows analysed, TREE_FALL
  in every other case, zero votes included. There is no outcome without a transmission.
\<close>

theorem monitoring_episode_sends_one_verdict:
  assumes "lora_begin w" and "wakeup_reason w = ESP_SLEEP_WAKEUP_EXT0"
    and "clock_expires w" and "length (ticks w) < 2 ^ 31"
  shows "frames (setup_sensor lib w) =
           [payload (send_millis w) (bat_raw w)
              (if 15 * total_samples (episode_tally lib w) < 100 * chainsaw_votes (episode_tally lib w)
               then ''CHAINSAW'' else ''TREE_FALL'')]
       \<and> total_samples (episode_tally lib w) =
           length (takeWhile (\<lambda>k. millis_now k - start_millis w < duration) (ticks w))
       \<and> status (setup_sensor lib w) = Asleep"
proof -
  let ?st0 = "(emit (Led True) boot, \<lparr>chainsaw_votes = 0, wind_votes = 0, total_samples = 0\<rparr>)"
  let ?st = "monitor lib (start_millis w) (ticks w) ?st0"
  have run: "status (fst ?st) = Running"
    using assms(3) by (intro monitor_returns) (simp_all add: clock_expires_def)
  have tot: "total_samples (episode_tally lib w) =
           length (takeWhile (\<lambda>k. millis_now k - start_millis w < duration) (ticks w))"
    by (simp add: episode_tally_def monitor_total)
  have "length (takeWhile (\<lambda>k. millis_now k - start_millis w < duration) (ticks w)) \<le> length (ticks w)"
    by (rule length_takeWhile_le)
  with tot assms(4) have "total_samples (snd ?st) < 2 ^ 31"
    by (simp add: episode_tally_def)
  then have verdict: "final_verdict (snd ?st) =
      (if 15 * total_samples (snd ?st) < 100 * chainsaw_votes (snd ?st) then ''CHAINSAW'' else ''TREE_FALL'')"
    by (simp add: final_verdict_def votes_exceed_iff)
  have fr: "frames (fst ?st) = []"
    by (simp add: monitor_frames)
  have "frames (setup_sensor lib w) = [payload (send_millis w) (bat_raw w) (final_verdict (snd ?st))]
      \<and> status (setup_sensor lib w) = Asleep"
    using assms(1,2) run fr
    by (simp add: setup_sensor_def run_ai_analysis_def Let_def when_running_def send_packet_def
        go_to_sleep_def)
  with verdict tot show ?thesis by (simp add: episode_tally_def)
qed

theorem monitoring_episode_sends_one_verdict_witness:
  "frames (setup_sensor stub_fft chainsaw_wake) = [''30021,NODE_A,CHAINSAW,3.3V''] \<and>
   status (setup_sensor stub_fft chainsaw_wake) = Asleep"
proof -
  have h: "lora_begin chainsaw_wake" "wakeup_reason chainsaw_wake = ESP_SLEEP_WAKEUP_EXT0"
    "clock_expires chainsaw_wake" "length (ticks chainsaw_wake) < 2 ^ 31"
    by (simp_all add: chainsaw_wake_def cold_boot_def clock_expires_def duration_def)
  have p: "payload (send_millis chainsaw_wake) (bat_raw chainsaw_wake) ''CHAINSAW'' =
           ''30021,NODE_A,CHAINSAW,3.3V''"
    by (simp add: chainsaw_wake_def cold_boot_def payload_def NODE_ID_def battery_text_def
        battery_tenths_def digit_def decimal.simps)
  from monitoring_episode_sends_one_verdict [OF h, of stub_fft] p show ?thesis
    by (simp add: chainsaw_wake_tally)
qed

section \<open>The radio frame (C6)\<close>

lemma split_commas_plain: "CHR '','' \<notin> set a \<Longrightarrow> split_commas a = [a]"
  by (induction a) auto

lemma split_commas_append:
  "CHR '','' \<notin> set a \<Longrightarrow> split_commas (a @ CHR '','' # b) = a # split_commas b"
  by (induction a) auto

lemma digit_is_digit: "d < 10 \<Longrightarrow> is_digit (digit d)"
proof -
  assume "d < 10"
  then have "d \<in> {0, 1, 2, 3, 4, 5, 6, 7, 8, 9}" by auto
  then show ?thesis by (auto simp: is_digit_def digit_def)
qed

lemma decimal_digits: "decimal n \<noteq> [] \<and> list_all is_digit (decimal n)"
proof (induction n rule: decimal.induct)
  case (1 n)
  show ?case
  proof (cases "n < 10")
    case True
    then show ?thesis by (subst (1 2) decimal.simps) (simp add: digit_is_digit)
  next
    case False
    with 1 have "list_all is_digit (decimal (n div 10))" by simp
    with False show ?thesis by (subst (1 2) decimal.simps) (simp add: digit_is_digit)
  qed
qed

lemma is_digit_not_comma: "is_digit c \<Longrightarrow> c \<noteq> CHR '',''"
  by (auto simp: is_digit_def)

lemma decimal_no_comma: "CHR '','' \<notin> set (decimal n)"
  using decimal_digits [of n] is_digit_not_comma by (auto simp: list_all_iff)

lemma is_counter_decimal: "is_counter (decimal n)"
  using decimal_digits by (simp add: is_counter_def)

lemma battery_text_no_comma: "CHR '','' \<notin> set (battery_text raw @ ''V'')"
proof -
  have "battery_tenths raw mod 10 < 10" by simp
  from digit_is_digit [OF this] have "digit (battery_tenths raw mod 10) \<noteq> CHR '',''"
    by (rule is_digit_not_comma)
  then show ?thesis by (simp add: battery_text_def decimal_no_comma)
qed

lemma is_voltage_battery_text: "is_voltage (battery_text raw @ ''V'')"
proof -
  have "battery_tenths raw mod 10 < 10" by simp
  from digit_is_digit [OF this] show ?thesis
    using decimal_digits [of "battery_tenths raw div 10"]
    by (cases "rev (decimal (battery_tenths raw div 10))")
       (simp_all add: is_voltage_def battery_text_def is_counter_def)
qed

lemma payload_fields:
  assumes "tag \<in> set VERDICT_TAGS"
  shows "split_commas (payload ms raw tag) =
           [decimal (unat ms), NODE_ID, tag, battery_text raw @ ''V'']"
proof -
  from assms have t: "CHR '','' \<notin> set tag" by (auto simp: VERDICT_TAGS_def)
  have n: "CHR '','' \<notin> set NODE_ID" by (simp add: NODE_ID_def)
  show ?thesis
    using split_commas_append [OF decimal_no_comma] split_commas_append [OF n]
      split_commas_append [OF t] split_commas_plain [OF battery_text_no_comma]
    by (simp add: payload_def)
qed

lemma frame_ok_payload:
  assumes "tag \<in> set VERDICT_TAGS"
  shows "frame_ok (payload ms raw tag)"
  using assms
  by (simp add: frame_ok_def payload_fields is_counter_decimal is_voltage_battery_text)

text \<open>
  Claim C6 says that every frame the sensor transmits holds a timestamp or counter, the
  node identity, a verdict tag and the battery voltage. The frames of firmware V2.0 hold
  the node identity and the verdict tag only: its CLIMBING alert is \<open>NODE_A,CLIMBING\<close>.
\<close>

theorem v2_frame_lacks_fields:
  "frames (setup_v2 stub_fft climbing_wake) = [''NODE_A,CLIMBING''] \<and>
   split_commas ''NODE_A,CLIMBING'' = [''NODE_A'', ''CLIMBING''] \<and>
   \<not> frame_ok ''NODE_A,CLIMBING''"
proof -
  have "count_hits (\<lambda>i. i < 6) = 6" by code_simp
  then have "frames (setup_v2 stub_fft climbing_wake) = [''NODE_A,CLIMBING'']"
    by (simp add: setup_v2_def IS_GATEWAY_def analyze_environment_def theft_detection_def
        when_running_def send_lora_alert_def goToDeepSleep_def NODE_ID_def Let_def
        climbing_wake_def cold_boot_def)
  then show ?thesis
    by (simp add: frame_ok_def)
qed

text \<open>
  Claim C6, amended. Every frame the production (30-second) firmware transmits has four
  comma-delimited fields: the \<^verbatim>\<open>millis()\<close> counter, the node identity, a verdict tag
  (HEARTBEAT, CHAINSAW or TREE_FALL) and the battery voltage. Every frame firmware V2.0
  transmits has two comma-delimited fields, the node identity and the verdict tag
  (CLIMBING or CHAINSAW), and neither a counter nor a battery voltage.
\<close>

theorem frame_formats:
  "(\<forall>f \<in> set (frames (setup_sensor lib w)).
      frame_ok f \<and>
      (\<exists>tag \<in> set [''HEARTBEAT'', ''CHAINSAW'', ''TREE_FALL''].
         split_commas f =
           [decimal (unat (send_millis w)), NODE_ID, tag, battery_text (bat_raw w) @ ''V''])) \<and>
   (\<forall>f \<in> set (frames (setup_v2 lib w)).
      \<exists>tag \<in> set [''CLIMBING'', ''CHAINSAW'']. split_commas f = [NODE_ID, tag])"
proof -
  have v: "final_verdict t = ''CHAINSAW'' \<or> final_verdict t = ''TREE_FALL''" for t
    by (simp add: final_verdict_def)
  have sensor: "frames (setup_sensor lib w) = [] \<or>
      (\<exists>tag \<in> set [''HEARTBEAT'', ''CHAINSAW'', ''TREE_FALL''].
         frames (setup_sensor lib w) = [payload (send_millis w) (bat_raw w) tag])"
    using v [of "snd (monitor lib (start_millis w) (ticks w)
        (emit (Led True) boot, \<lparr>chainsaw_votes = 0, wind_votes = 0, total_samples = 0\<rparr>))"]
    by (auto simp: setup_sensor_def when_running_def go_to_sleep_def run_ai_analysis_def
        send_packet_def Let_def monitor_frames)
  have ok: "frame_ok (payload ms raw tag) \<and>
      split_commas (payload ms raw tag) = [decimal (unat ms), NODE_ID, tag, battery_text raw @ ''V'']"
    if "tag \<in> set [''HEARTBEAT'', ''CHAINSAW'', ''TREE_FALL'']" for ms raw tag
  proof -
    from that have t: "tag \<in> set VERDICT_TAGS" by (auto simp: VERDICT_TAGS_def)
    then show ?thesis
      using frame_ok_payload [OF t] payload_fields [OF t] by simp
  qed
  have a: "\<forall>f \<in> set (frames (setup_sensor lib w)).
      frame_ok f \<and>
      (\<exists>tag \<in> set [''HEARTBEAT'', ''CHAINSAW'', ''TREE_FALL''].
         split_commas f =
           [decimal (unat (send_millis w)), NODE_ID, tag, battery_text (bat_raw w) @ ''V''])"
    using sensor ok by fastforce
  have v2: "frames (setup_v2 lib w) = [] \<or> frames (setup_v2 lib w) = [NODE_ID @ '','' @ ''CLIMBING'']
      \<or> frames (setup_v2 lib w) = [NODE_ID @ '','' @ ''CHAINSAW'']"
    by (simp add: setup_v2_def when_running_def goToDeepSleep_def analyze_environment_def
        theft_detection_def chainsaw_detection_def send_lora_alert_def Let_def IS_GATEWAY_def
        frames_def)
  have sp: "split_commas (NODE_ID @ '','' @ tag) = [NODE_ID, tag]"
    if "tag \<in> set [''CLIMBING'', ''CHAINSAW'']" for tag
    using that by (auto simp: NODE_ID_def)
  have b: "\<forall>f \<in> set (frames (setup_v2 lib w)).
      \<exists>tag \<in> set [''CLIMBING'', ''CHAINSAW'']. split_commas f = [NODE_ID, tag]"
    using v2 sp by fastforce
  from a b show ?thesis by simp
qed

theorem frame_formats_witness:
  "frames (setup_sensor stub_fft cold_boot) = [''15,NODE_A,HEARTBEAT,3.3V''] \<and>
   frame_ok ''15,NODE_A,HEARTBEAT,3.3V'' \<and>
   split_commas ''15,NODE_A,HEARTBEAT,3.3V'' = [''15'', ''NODE_A'', ''HEARTBEAT'', ''3.3V''] \<and>
   frames (setup_v2 stub_fft climbing_wake) = [''NODE_A,CLIMBING''] \<and>
   split_commas ''NODE_A,CLIMBING'' = [''NODE_A'', ''CLIMBING'']"
proof -
  have f: "frames (setup_sensor stub_fft cold_boot) = [''15,NODE_A,HEARTBEAT,3.3V'']"
    by (simp add: setup_sensor_def when_running_def go_to_sleep_def send_packet_def
        cold_boot_def payload_def NODE_ID_def battery_text_def battery_tenths_def digit_def
        decimal.simps)
  have "count_hits (\<lambda>i. i < 6) = 6" by code_simp
  then have g: "frames (setup_v2 stub_fft climbing_wake) = [''NODE_A,CLIMBING'']"
    by (simp add: setup_v2_def IS_GATEWAY_def analyze_environment_def theft_detection_def
        when_running_def send_lora_alert_def goToDeepSleep_def NODE_ID_def Let_def
        climbing_wake_def cold_boot_def)
  from frame_formats [of stub_fft cold_boot] frame_formats [of stub_fft climbing_wake] f g
  show ?thesis
    by simp
qed

end
